theory Spec2Isabelle
  imports Complex_Main
begin

section \<open>Python values and exceptions\<close>

text \<open>
  A secret's description (\<^verbatim>\<open>SecretDescription(scope, key, instructions)\<close>), carried by
  the missing-secret exception.
\<close>

datatype SecretDescription = SecretDescription string string string

text \<open>
  Every \<^verbatim>\<open>raise\<close>, failed \<^verbatim>\<open>assert\<close> and library exception of the modelled code is a
  value of this type; a function that can raise returns \<open>error + 'a\<close>, with \<open>Inl\<close> for
  the exception. Messages are kept where the source writes them.
\<close>

datatype error =
    AssertionError string
  | ValueError string
  | RuntimeError string
  | KeyError string
  | IndexError
  | TypeError
  | ValidationError
  | StatisticsError
  | OverflowError
  | SameFileError
  | MissingSecretValues "SecretDescription list"
  | HTTPError nat
  | JSONDecodeError
  | ConnectionError
  | FileNotFoundError string

text \<open>
  Python's \<^verbatim>\<open>str.lower()\<close> on the ASCII range: the letters \<open>A\<close> to \<open>Z\<close> (codes 65 to 90)
  move to \<open>a\<close> to \<open>z\<close>, every other character stays. Strings are lists of 8-bit
  characters; hazard identifiers and locales are ASCII.
\<close>

definition lower_char :: "char \<Rightarrow> char" where
  "lower_char c =
     (let n = (of_char c :: nat)
      in if 65 \<le> n \<and> n \<le> 90 then char_of (n + 32) else c)"

definition lower :: "string \<Rightarrow> string" where
  "lower s = map lower_char s"

text \<open>
  Python's \<^verbatim>\<open>sub in s\<close> on strings: \<open>sub\<close> occurs in \<open>s\<close> as a contiguous run of
  characters. The search tries every start position from the left.
\<close>

fun startswith :: "string \<Rightarrow> string \<Rightarrow> bool" where
  "startswith s [] = True"
| "startswith [] (c # sub) = False"
| "startswith (d # s) (c # sub) = (d = c \<and> startswith s sub)"

fun str_in :: "string \<Rightarrow> string \<Rightarrow> bool" where
  "str_in sub [] = (sub = [])"
| "str_in sub (d # s) = (startswith (d # s) sub \<or> str_in sub s)"

text \<open>\<^verbatim>\<open>str(n)\<close> for a non-negative integer: its decimal digits.\<close>

fun str_nat :: "nat \<Rightarrow> string" where
  "str_nat n =
     (if n < 10 then [char_of (48 + n)]
      else str_nat (n div 10) @ [char_of (48 + n mod 10)])"

text \<open>
  A Python \<^verbatim>\<open>dict\<close> with string keys is an association list in insertion order;
  \<^verbatim>\<open>d[k]\<close> raises \<^verbatim>\<open>KeyError\<close> on an absent key, \<^verbatim>\<open>k in d\<close> tests the keys and
  \<^verbatim>\<open>d.items()\<close> is the list itself. A dict holds each key once.
\<close>

definition dict_contains :: "(string \<times> 'v) list \<Rightarrow> string \<Rightarrow> bool" where
  "dict_contains d k = (map_of d k \<noteq> None)"

definition dict_get :: "(string \<times> 'v) list \<Rightarrow> string \<Rightarrow> error + 'v" where
  "dict_get d k = (case map_of d k of None \<Rightarrow> Inl (KeyError k) | Some v \<Rightarrow> Inr v)"

section \<open>Python floats\<close>

text \<open>
  A Python float is an IEEE 754 double. A finite double is given by the real number it
  stands for, and an operation on floats is the exact operation followed by one rounding
  to the nearest double, ties to the even significand. \<open>round_half_even\<close> rounds a real to
  the nearest integer, ties to even.
\<close>

definition round_half_even :: "real \<Rightarrow> int" where
  "round_half_even m =
     (let f = \<lfloor>m\<rfloor>; r = m - of_int f
      in if r < 1 / 2 then f else if 1 / 2 < r then f + 1 else if even f then f else f + 1)"

text \<open>
  \<open>ilog2 n\<close> is the position of the highest set bit of an integer \<open>n \<ge> 1\<close>, and
  \<open>binary_exponent x\<close> the integer \<open>e\<close> with \<open>2 ^ e \<le> x < 2 ^ (e + 1)\<close> for a real \<open>x > 0\<close>.
\<close>

fun ilog2 :: "int \<Rightarrow> int" where
  "ilog2 n = (if n \<le> 1 then 0 else 1 + ilog2 (n div 2))"

declare ilog2.simps [simp del]

definition binary_exponent :: "real \<Rightarrow> int" where
  "binary_exponent x =
     (if 1 \<le> x then ilog2 \<lfloor>x\<rfloor> else - (1 + ilog2 (\<lceil>1 / x\<rceil> - 1)))"

text \<open>
  \<open>double x\<close> is the double nearest to \<open>x\<close>: a multiple of \<open>2 ^ (e - 52)\<close>, where \<open>e\<close> is the
  binary exponent of \<open>x\<close>, and not below that of the smallest normal number, \<open>- 1022\<close>
  (so that the spacing of the subnormal numbers is \<open>2 ^ (- 1074)\<close>). A result of
  magnitude \<open>2 ^ 1024\<close> or more is beyond the largest double: the operation overflows.
\<close>

definition double :: "real \<Rightarrow> real" where
  "double x =
     (if x = 0 then 0
      else let e = max (binary_exponent \<bar>x\<bar>) (- 1022); q = 2 powi (e - 52)
           in of_int (round_half_even (x / q)) * q)"

definition overflows :: "real \<Rightarrow> bool" where
  "overflows x = (2 ^ 1024 \<le> \<bar>double x\<bar>)"

text \<open>
  \<^verbatim>\<open>math.fsum\<close> adds without intermediate rounding: it keeps the exact running sum and
  rounds it once, at the end. It raises \<^verbatim>\<open>OverflowError\<close> as soon as a running sum is
  beyond the largest double.
\<close>

fun fsum_from :: "real \<Rightarrow> real list \<Rightarrow> error + real" where
  "fsum_from running [] = Inr (double running)"
| "fsum_from running (x # xs) =
     (if overflows (running + x) then Inl OverflowError else fsum_from (running + x) xs)"

definition fsum :: "real list \<Rightarrow> error + real" where
  "fsum xs = fsum_from 0 xs"

section \<open>The standards store (\<^verbatim>\<open>modelbench/standards.py\<close>)\<close>

text \<open>
  \<^verbatim>\<open>Standards.data["reference_standards"]\<close>: the mapping from a hazard identifier to its
  calibrated reference value. A value is a Python float, given by the real number it
  stands for; the decimal literal \<open>x\<close> of the standards file is stored as \<open>double x\<close>.
\<close>

record Standards =
  reference_standards :: "(string \<times> real) list"

text \<open>
  \<^verbatim>\<open>
  def reference_standard_for(self, name):
      if name not in self.data["reference_standards"]:
          raise ValueError(f"No standard yet for {name}. Run `modelbench calibrate --update` to add one.")
      return self.data["reference_standards"][name]
  \<close>
\<close>

definition reference_standard_for :: "Standards \<Rightarrow> string \<Rightarrow> error + real" where
  "reference_standard_for self name =
     (if \<not> dict_contains (reference_standards self) name
      then Inl (ValueError (''No standard yet for '' @ name
                  @ ''. Run `modelbench calibrate --update` to add one.''))
      else dict_get (reference_standards self) name)"

text \<open>
  \<^verbatim>\<open>statistics.fmean(data)\<close> is \<^verbatim>\<open>math.fsum(data) / len(data)\<close>, and raises
  \<^verbatim>\<open>StatisticsError\<close> on empty data. The sum is computed first; the division is a float
  division by the count converted to a float.
\<close>

definition fmean :: "real list \<Rightarrow> error + real" where
  "fmean data =
     (case fsum data of
        Inl e \<Rightarrow> Inl e
      | Inr s \<Rightarrow>
          if length data = 0 then Inl StatisticsError
          else Inr (double (s / double (real (length data)))))"

text \<open>
  \<^verbatim>\<open>
  def average_standard_across_references(self, locale: str = "", version: str = "1.0") -> float:
      assert version == "1.0", "Only version 1.0 is supported."
      if not locale:
          raise ValueError("Locale is required for v1.0 scoring.")
      locale = locale.lower()
      validate_locale(locale)
      values = [v for k, v in self.data["reference_standards"].items() if locale in k]
      assert len(values), "No reference values found"
      return fmean(values)
  \<close>
  \<^verbatim>\<open>validate_locale\<close> comes from \<^verbatim>\<open>modelgauge.locales\<close>, which is not among the source
  files: it is the parameter \<open>validate_locale\<close>, giving \<open>None\<close> where the call returns and
  \<open>Some e\<close> where it raises \<open>e\<close>.
\<close>

definition average_standard_across_references ::
  "(string \<Rightarrow> error option) \<Rightarrow> Standards \<Rightarrow> string \<Rightarrow> string \<Rightarrow> error + real" where
  "average_standard_across_references validate_locale self locale version =
     (if version \<noteq> ''1.0'' then Inl (AssertionError ''Only version 1.0 is supported.'')
      else if locale = [] then Inl (ValueError ''Locale is required for v1.0 scoring.'')
      else
        let locale' = lower locale in
        case validate_locale locale' of
          Some e \<Rightarrow> Inl e
        | None \<Rightarrow>
            let values = map snd (filter (\<lambda>(k, v). str_in locale' k) (reference_standards self))
            in if length values = 0 then Inl (AssertionError ''No reference values found'')
               else fmean values)"

text \<open>
  An instance of the \<open>validate_locale\<close> parameter for the concrete evaluations below: the
  call returns on the listed locales and fails its assertion on every other string.
\<close>

definition validate_locale_among :: "string list \<Rightarrow> string \<Rightarrow> error option" where
  "validate_locale_among known locale =
     (if locale \<in> set known then None else Some (AssertionError ''Locale is not supported.''))"


section \<open>JSON-like values and HTTP responses\<close>

text \<open>
  The values a vendor response or a dumped request is made of: Python's \<^verbatim>\<open>None\<close>, booleans,
  numbers, strings, lists and string-keyed dicts.
\<close>

datatype json =
    JNull
  | JBool bool
  | JInt int
  | JFloat real
  | JStr string
  | JList "json list"
  | JDict "(string \<times> json) list"

text \<open>
  \<^verbatim>\<open>x[i]\<close> for a non-negative integer \<open>i\<close> and \<^verbatim>\<open>x["k"]\<close> for a string key, with Python's
  exceptions: a list or string raises \<^verbatim>\<open>IndexError\<close> out of range, a dict raises
  \<^verbatim>\<open>KeyError\<close> on an absent key (its keys are strings, so no integer is one), a list or
  string indexed by a string and a number, boolean or \<^verbatim>\<open>None\<close> indexed at all raise
  \<^verbatim>\<open>TypeError\<close>.
\<close>

fun getitem_index :: "json \<Rightarrow> nat \<Rightarrow> error + json" where
  "getitem_index (JList xs) i = (if i < length xs then Inr (xs ! i) else Inl IndexError)"
| "getitem_index (JStr s) i = (if i < length s then Inr (JStr [s ! i]) else Inl IndexError)"
| "getitem_index (JDict d) i = Inl (KeyError (str_nat i))"
| "getitem_index JNull i = Inl TypeError"
| "getitem_index (JBool b) i = Inl TypeError"
| "getitem_index (JInt n) i = Inl TypeError"
| "getitem_index (JFloat x) i = Inl TypeError"


text \<open>Sequencing of calls that may raise: the first exception ends the computation.\<close>

definition and_then :: "error + 'a \<Rightarrow> ('a \<Rightarrow> error + 'b) \<Rightarrow> error + 'b" where
  "and_then r f = (case r of Inl e \<Rightarrow> Inl e | Inr x \<Rightarrow> f x)"

text \<open>
  A \<^verbatim>\<open>requests.Response\<close>, as far as the code reads it. \<open>json_body\<close> is what
  \<^verbatim>\<open>response.json()\<close> returns, \<open>None\<close> where the body is not JSON and the call raises.
\<close>

record Response =
  status_code :: nat
  content :: string
  response_text :: string
  json_body :: "json option"

text \<open>
  The \<^verbatim>\<open>requests\<close> library's \<^verbatim>\<open>raise_for_status()\<close> raises an \<^verbatim>\<open>HTTPError\<close> for the client
  and server error codes 400 to 599 and returns for every other code; \<^verbatim>\<open>response.ok\<close> is
  true exactly when \<^verbatim>\<open>raise_for_status()\<close> does not raise.
\<close>

definition raise_for_status :: "Response \<Rightarrow> error option" where
  "raise_for_status response =
     (if 400 \<le> status_code response \<and> status_code response < 600
      then Some (HTTPError (status_code response)) else None)"


section \<open>External data (\<^verbatim>\<open>modelgauge/external_data.py\<close>)\<close>




text \<open>
  The state a download works on: the local files, the number of calls made to the outside
  so far, and the seconds the retry wrapper has slept, in order. Opening a local file for
  writing is taken to succeed.
\<close>

record world =
  files :: "string \<rightharpoonup> string"
  calls :: nat
  slept :: "nat list"










definition sleep :: "nat \<Rightarrow> world \<Rightarrow> world" where
  "sleep seconds w = w\<lparr>slept := slept w @ [seconds]\<rparr>"


text \<open>
  What it means that the body was attempted in vain, for comparison with the wrapper:
  \<open>after_failures body wait a k w\<close> is the world in which attempt number \<open>a + k\<close> starts
  when the attempts \<open>a\<close> to \<open>a + k - 1\<close>, the first of them made in \<open>w\<close>, have all raised
  and each has been followed by its wait; it is \<open>None\<close> when one of them returned.
\<close>

fun after_failures ::
  "(world \<Rightarrow> (error + unit) \<times> world) \<Rightarrow> (nat \<Rightarrow> nat) \<Rightarrow> nat \<Rightarrow> nat \<Rightarrow> world \<Rightarrow> world option" where
  "after_failures body wait a 0 w = Some w"
| "after_failures body wait a (Suc k) w =
     (case body w of
        (Inl e, w') \<Rightarrow> after_failures body wait (Suc a) k (sleep (wait a) w')
      | (Inr r, w') \<Rightarrow> None)"









section \<open>Prompts and normalised responses\<close>

text \<open>
  Modelled from the spec: the options bag of a prompt (\<^verbatim>\<open>modelgauge.prompt\<close>, not among
  the source files). The specification gives a prompt "immutable text plus an options bag
  (stop sequences, max tokens, temperature, top-p, top-k, penalties)"; the fields carry
  the names under which the adapters read them, and each is unset (\<open>None\<close>) or set.
\<close>

record SUTOptions =
  stop_sequences :: "string list option"
  max_tokens :: "int option"
  temperature :: "real option"
  top_p :: "real option"
  top_k_per_token :: "int option"
  presence_penalty :: "real option"
  frequency_penalty :: "real option"

text \<open>
  Modelled from the spec: the text prompt (\<^verbatim>\<open>modelgauge.prompt\<close>, not among the source
  files), its text and its options.
\<close>

record TextPrompt =
  prompt_text :: string
  options :: SUTOptions




text \<open>
  \<^verbatim>\<open>model_dump(exclude_none=True)\<close> writes a field under its name unless its value is
  \<^verbatim>\<open>None\<close>; the fields come in the order of their declaration.
\<close>

definition dump_field :: "string \<Rightarrow> json option \<Rightarrow> (string \<times> json) list" where
  "dump_field name v = (case v of None \<Rightarrow> [] | Some x \<Rightarrow> [(name, x)])"

section \<open>The Google adapter (\<^verbatim>\<open>plugins/google/modelgauge/suts/google_genai_client.py\<close>)\<close>

record GoogleGenAiConfig =
  genai_stop_sequences :: "string list option"
  genai_max_output_tokens :: "int option"
  genai_temperature :: "real option"
  genai_top_p :: "real option"
  genai_top_k :: "int option"
  genai_presence_penalty :: "real option"
  genai_frequency_penalty :: "real option"

record GoogleGenAiRequest =
  contents :: string
  generation_config :: GoogleGenAiConfig

record Candidate =
  candidate_content :: "(string \<times> json) list"
  finish_reason :: int

record GoogleGenAiResponse =
  candidates :: "Candidate list"
  usage_metadata :: "(string \<times> json) list"

text \<open>
  The client object \<^verbatim>\<open>genai.GenerativeModel(model_name)\<close>; \<open>client_id\<close> tells one object
  from another.
\<close>

record GenerativeModel =
  client_model_name :: string
  client_id :: nat

text \<open>The adapter object: \<^verbatim>\<open>self.uid\<close>, \<^verbatim>\<open>self.model_name\<close> and \<^verbatim>\<open>self.model\<close>.\<close>

record GoogleGenAiSUT =
  uid :: string
  model_name :: string
  model :: "GenerativeModel option"

text \<open>
  What the adapter's calls leave outside the adapter object: the number of client
  objects created, and the calls of \<^verbatim>\<open>generate_content\<close> made so far, each with the client
  it was made on and the keyword arguments it was given.
\<close>

record genai_world =
  clients_created :: nat
  generate_calls :: "(GenerativeModel \<times> (string \<times> json) list) list"

text \<open>
  \<^verbatim>\<open>
  def __init__(self, uid: str, model_name: str, api_key: GoogleAiApiKey):
      super().__init__(uid)
      self.model_name = model_name
      self.model: Optional[genai.GenerativeModel] = None
      genai.configure(api_key=api_key.value)

  def _load_client(self) -> genai.GenerativeModel:
      return genai.GenerativeModel(self.model_name)
  \<close>
\<close>

definition GoogleGenAiSUT_init :: "string \<Rightarrow> string \<Rightarrow> GoogleGenAiSUT" where
  "GoogleGenAiSUT_init u name = \<lparr>uid = u, model_name = name, model = None\<rparr>"

definition load_client :: "GoogleGenAiSUT \<Rightarrow> genai_world \<Rightarrow> GenerativeModel \<times> genai_world" where
  "load_client self w =
     (\<lparr>client_model_name = model_name self, client_id = clients_created w\<rparr>,
      w\<lparr>clients_created := Suc (clients_created w)\<rparr>)"

text \<open>
  \<^verbatim>\<open>
  def translate_text_prompt(self, prompt: TextPrompt) -> GoogleGenAiRequest:
      generation_config = GoogleGenAiConfig(
          stop_sequences=prompt.options.stop_sequences,
          max_output_tokens=prompt.options.max_tokens,
          temperature=prompt.options.temperature,
          top_p=prompt.options.top_p,
          top_k=prompt.options.top_k_per_token,
          presence_penalty=prompt.options.presence_penalty,
          frequency_penalty=prompt.options.frequency_penalty,
      )
      return GoogleGenAiRequest(contents=prompt.text, generation_config=generation_config)
  \<close>
\<close>

definition GoogleGenAiSUT_translate_text_prompt :: "TextPrompt \<Rightarrow> GoogleGenAiRequest" where
  "GoogleGenAiSUT_translate_text_prompt prompt =
     \<lparr>contents = prompt_text prompt,
      generation_config =
        \<lparr>genai_stop_sequences = stop_sequences (options prompt),
         genai_max_output_tokens = max_tokens (options prompt),
         genai_temperature = temperature (options prompt),
         genai_top_p = top_p (options prompt),
         genai_top_k = top_k_per_token (options prompt),
         genai_presence_penalty = presence_penalty (options prompt),
         genai_frequency_penalty = frequency_penalty (options prompt)\<rparr>\<rparr>"

definition GoogleGenAiConfig_model_dump :: "GoogleGenAiConfig \<Rightarrow> (string \<times> json) list" where
  "GoogleGenAiConfig_model_dump c =
     dump_field ''stop_sequences'' (map_option (\<lambda>ss. JList (map JStr ss)) (genai_stop_sequences c))
     @ dump_field ''max_output_tokens'' (map_option JInt (genai_max_output_tokens c))
     @ dump_field ''temperature'' (map_option JFloat (genai_temperature c))
     @ dump_field ''top_p'' (map_option JFloat (genai_top_p c))
     @ dump_field ''top_k'' (map_option JInt (genai_top_k c))
     @ dump_field ''presence_penalty'' (map_option JFloat (genai_presence_penalty c))
     @ dump_field ''frequency_penalty'' (map_option JFloat (genai_frequency_penalty c))"

definition GoogleGenAiRequest_model_dump :: "GoogleGenAiRequest \<Rightarrow> (string \<times> json) list" where
  "GoogleGenAiRequest_model_dump request =
     [(''contents'', JStr (contents request)),
      (''generation_config'', JDict (GoogleGenAiConfig_model_dump (generation_config request)))]"

text \<open>
  \<^verbatim>\<open>GoogleGenAiResponse(**response.to_dict())\<close>: the validated constructor wants a list of
  candidates, each a dict with a dict \<^verbatim>\<open>content\<close> and an integer \<^verbatim>\<open>finish_reason\<close>, and a
  dict \<^verbatim>\<open>usage_metadata\<close>; other keys are ignored. For an integer field the validation
  takes an integer, a boolean (as 0 or 1) and a float without a fractional part; which
  strings it converts is the parameter \<open>int_of_str\<close> (\<open>None\<close> where it refuses).
\<close>

fun validate_int :: "(string \<Rightarrow> int option) \<Rightarrow> json \<Rightarrow> error + int" where
  "validate_int int_of_str (JInt n) = Inr n"
| "validate_int int_of_str (JBool b) = Inr (if b then 1 else 0)"
| "validate_int int_of_str (JFloat x) =
     (if x = of_int \<lfloor>x\<rfloor> then Inr \<lfloor>x\<rfloor> else Inl ValidationError)"
| "validate_int int_of_str (JStr s) =
     (case int_of_str s of None \<Rightarrow> Inl ValidationError | Some n \<Rightarrow> Inr n)"
| "validate_int int_of_str JNull = Inl ValidationError"
| "validate_int int_of_str (JList xs) = Inl ValidationError"
| "validate_int int_of_str (JDict d) = Inl ValidationError"

fun Candidate_validate :: "(string \<Rightarrow> int option) \<Rightarrow> json \<Rightarrow> error + Candidate" where
  "Candidate_validate int_of_str (JDict d) =
     (case map_of d ''content'' of
        Some (JDict c) \<Rightarrow>
          (case map_of d ''finish_reason'' of
             Some x \<Rightarrow>
               and_then (validate_int int_of_str x)
                 (\<lambda>n. Inr \<lparr>candidate_content = c, finish_reason = n\<rparr>)
           | None \<Rightarrow> Inl ValidationError)
      | _ \<Rightarrow> Inl ValidationError)"
| "Candidate_validate int_of_str x = Inl ValidationError"

fun Candidates_validate :: "(string \<Rightarrow> int option) \<Rightarrow> json list \<Rightarrow> error + Candidate list" where
  "Candidates_validate int_of_str [] = Inr []"
| "Candidates_validate int_of_str (x # xs) =
     and_then (Candidate_validate int_of_str x) (\<lambda>c.
     and_then (Candidates_validate int_of_str xs) (\<lambda>cs. Inr (c # cs)))"

fun GoogleGenAiResponse_validate ::
  "(string \<Rightarrow> int option) \<Rightarrow> json \<Rightarrow> error + GoogleGenAiResponse" where
  "GoogleGenAiResponse_validate int_of_str (JDict d) =
     (case map_of d ''candidates'' of
        Some (JList xs) \<Rightarrow>
          (case map_of d ''usage_metadata'' of
             Some (JDict u) \<Rightarrow>
               and_then (Candidates_validate int_of_str xs)
                 (\<lambda>cs. Inr \<lparr>candidates = cs, usage_metadata = u\<rparr>)
           | _ \<Rightarrow> Inl ValidationError)
      | _ \<Rightarrow> Inl ValidationError)"
| "GoogleGenAiResponse_validate int_of_str x = Inl TypeError"

text \<open>
  \<^verbatim>\<open>
  def evaluate(self, request: GoogleGenAiRequest) -> GoogleGenAiResponse:
      if self.model is None:
          # Handle lazy init.
          self.model = self._load_client()
      response = self.model.generate_content(**request.model_dump(exclude_none=True))
      # Convert to pydantic model
      return GoogleGenAiResponse(**response.to_dict())
  \<close>
  The vendor service is the parameter \<open>generate_content\<close>: what the \<open>n\<close>-th call, made on a
  client with keyword arguments, answers (an exception, or the response as a dict);
  \<open>int_of_str\<close> is the parameter of the validation. The adapter object is returned with the
  result, also when the call raises.
\<close>

definition GoogleGenAiSUT_evaluate ::
  "(string \<Rightarrow> int option)
    \<Rightarrow> (nat \<Rightarrow> GenerativeModel \<Rightarrow> (string \<times> json) list \<Rightarrow> error + json)
    \<Rightarrow> GoogleGenAiSUT \<Rightarrow> GoogleGenAiRequest \<Rightarrow> genai_world
    \<Rightarrow> (error + GoogleGenAiResponse) \<times> GoogleGenAiSUT \<times> genai_world" where
  "GoogleGenAiSUT_evaluate int_of_str generate_content self request w =
     (let (client, self1, w1) =
            (case model self of
               None \<Rightarrow> (let (c, w') = load_client self w in (c, self\<lparr>model := Some c\<rparr>, w'))
             | Some c \<Rightarrow> (c, self, w));
          kwargs = GoogleGenAiRequest_model_dump request;
          w2 = w1\<lparr>generate_calls := generate_calls w1 @ [(client, kwargs)]\<rparr>
      in (and_then (generate_content (length (generate_calls w1)) client kwargs)
            (GoogleGenAiResponse_validate int_of_str),
          self1, w2))"

text \<open>A run calls \<^verbatim>\<open>evaluate\<close> on one request after another, on the same adapter object.\<close>

fun evaluate_requests ::
  "(string \<Rightarrow> int option)
    \<Rightarrow> (nat \<Rightarrow> GenerativeModel \<Rightarrow> (string \<times> json) list \<Rightarrow> error + json)
    \<Rightarrow> GoogleGenAiSUT \<Rightarrow> GoogleGenAiRequest list \<Rightarrow> genai_world
    \<Rightarrow> GoogleGenAiSUT \<times> genai_world" where
  "evaluate_requests int_of_str generate_content self [] w = (self, w)"
| "evaluate_requests int_of_str generate_content self (request # requests) w =
     (case GoogleGenAiSUT_evaluate int_of_str generate_content self request w of
        (r, self', w') \<Rightarrow> evaluate_requests int_of_str generate_content self' requests w')"




section \<open>The Hugging Face adapter (\<^verbatim>\<open>plugins/huggingface/modelgauge/suts/huggingface_api.py\<close>)\<close>

record HuggingFaceChatParams =
  hf_max_new_tokens :: "int option"
  hf_temperature :: "real option"

record HuggingFaceChatRequest =
  inputs :: string
  parameters :: HuggingFaceChatParams

record HuggingFaceResponse =
  generated_text :: string

record HuggingFaceSUT =
  hf_uid :: string
  token :: string
  api_url :: string

text \<open>
  What the adapter's calls leave outside the adapter object: the requests posted so far
  (URL, headers, JSON payload) and the failures reported on standard output (the payload
  and the response each report names).
\<close>

record hf_world =
  posts :: "(string \<times> (string \<times> string) list \<times> json) list"
  printed :: "(json \<times> Response) list"

text \<open>
  \<^verbatim>\<open>
  def translate_text_prompt(self, prompt: TextPrompt) -> HuggingFaceChatRequest:
      return HuggingFaceChatRequest(
          inputs=prompt.text,
          parameters=HuggingFaceChatParams(
              max_new_tokens=prompt.options.max_tokens, temperature=prompt.options.temperature
          ),
      )
  \<close>
\<close>

definition HuggingFaceSUT_translate_text_prompt :: "TextPrompt \<Rightarrow> HuggingFaceChatRequest" where
  "HuggingFaceSUT_translate_text_prompt prompt =
     \<lparr>inputs = prompt_text prompt,
      parameters = \<lparr>hf_max_new_tokens = max_tokens (options prompt),
                    hf_temperature = temperature (options prompt)\<rparr>\<rparr>"

definition HuggingFaceChatParams_model_dump :: "HuggingFaceChatParams \<Rightarrow> (string \<times> json) list" where
  "HuggingFaceChatParams_model_dump p =
     dump_field ''max_new_tokens'' (map_option JInt (hf_max_new_tokens p))
     @ dump_field ''temperature'' (map_option JFloat (hf_temperature p))"

definition HuggingFaceChatRequest_model_dump :: "HuggingFaceChatRequest \<Rightarrow> (string \<times> json) list" where
  "HuggingFaceChatRequest_model_dump request =
     [(''inputs'', JStr (inputs request)),
      (''parameters'', JDict (HuggingFaceChatParams_model_dump (parameters request)))]"

text \<open>
  \<^verbatim>\<open>HuggingFaceResponse(**response_json)\<close>: \<^verbatim>\<open>**\<close> wants a dict, and the validated
  constructor a string \<^verbatim>\<open>generated_text\<close>; other keys are ignored.
\<close>

fun HuggingFaceResponse_validate :: "json \<Rightarrow> error + HuggingFaceResponse" where
  "HuggingFaceResponse_validate (JDict d) =
     (case map_of d ''generated_text'' of
        Some (JStr s) \<Rightarrow> Inr \<lparr>generated_text = s\<rparr>
      | _ \<Rightarrow> Inl ValidationError)"
| "HuggingFaceResponse_validate x = Inl TypeError"

text \<open>\<^verbatim>\<open>response.json()\<close>: the parsed body, \<^verbatim>\<open>JSONDecodeError\<close> where the body is not JSON.\<close>

definition response_json :: "Response \<Rightarrow> error + json" where
  "response_json response = (case json_body response of None \<Rightarrow> Inl JSONDecodeError | Some j \<Rightarrow> Inr j)"

text \<open>
  \<^verbatim>\<open>
  def evaluate(self, request: HuggingFaceChatRequest) -> HuggingFaceResponse:
      headers = {
          "Accept": "application/json",
          "Authorization": f"Bearer {self.token}",
          "Content-Type": "application/json",
      }
      payload = request.model_dump(exclude_none=True)
      response = requests.post(self.api_url, headers=headers, json=payload)
      try:
          if response.status_code != 200:
              response.raise_for_status()
          response_json = response.json()[0]
          return HuggingFaceResponse(**response_json)
      except Exception as e:
          print(f"Unexpected failure for {payload}: {response}:\n {response.content}\n{response.headers}")
          raise e
  \<close>
  The body of the \<^verbatim>\<open>try\<close> is \<open>HuggingFaceSUT_read\<close>. The endpoint is the parameter
  \<open>requests_post\<close>: what the \<open>n\<close>-th request answers, an exception or a response.
\<close>

definition HuggingFaceSUT_read :: "Response \<Rightarrow> error + HuggingFaceResponse" where
  "HuggingFaceSUT_read response =
     (case (if status_code response \<noteq> 200 then raise_for_status response else None) of
        Some e \<Rightarrow> Inl e
      | None \<Rightarrow>
          and_then (response_json response) (\<lambda>j.
          and_then (getitem_index j 0) HuggingFaceResponse_validate))"

definition HuggingFaceSUT_evaluate ::
  "(nat \<Rightarrow> string \<Rightarrow> (string \<times> string) list \<Rightarrow> json \<Rightarrow> error + Response)
    \<Rightarrow> HuggingFaceSUT \<Rightarrow> HuggingFaceChatRequest \<Rightarrow> hf_world
    \<Rightarrow> (error + HuggingFaceResponse) \<times> hf_world" where
  "HuggingFaceSUT_evaluate requests_post self request w =
     (let headers = [(''Accept'', ''application/json''),
                     (''Authorization'', ''Bearer '' @ token self),
                     (''Content-Type'', ''application/json'')];
          payload = JDict (HuggingFaceChatRequest_model_dump request);
          w1 = w\<lparr>posts := posts w @ [(api_url self, headers, payload)]\<rparr>
      in case requests_post (length (posts w)) (api_url self) headers payload of
           Inl e \<Rightarrow> (Inl e, w1)
         | Inr response \<Rightarrow>
             (case HuggingFaceSUT_read response of
                Inl e \<Rightarrow> (Inl e, w1\<lparr>printed := printed w1 @ [(payload, response)]\<rparr>)
              | Inr r \<Rightarrow> (Inr r, w1)))"


text \<open>
  Services for the concrete evaluations below: an endpoint that answers every request
  with one response, a vendor service that answers every call with one dict, and a
  validation that converts no string to an integer.
\<close>

definition refuse_str :: "string \<Rightarrow> int option" where
  "refuse_str s = None"

definition endpoint_answering ::
  "Response \<Rightarrow> nat \<Rightarrow> string \<Rightarrow> (string \<times> string) list \<Rightarrow> json \<Rightarrow> error + Response" where
  "endpoint_answering response n url headers payload = Inr response"

definition service_answering ::
  "json \<Rightarrow> nat \<Rightarrow> GenerativeModel \<Rightarrow> (string \<times> json) list \<Rightarrow> error + json" where
  "service_answering d n client kwargs = Inr d"

definition no_options :: SUTOptions where
  "no_options =
     \<lparr>stop_sequences = None, max_tokens = None, temperature = None, top_p = None,
      top_k_per_token = None, presence_penalty = None, frequency_penalty = None\<rparr>"


section \<open>Facts about the string operations\<close>



lemma lower_idem: "lower (lower s) = lower s"
proof -
  have "lower_char (lower_char c) = lower_char c" for c
  proof -
    have "of_char (char_of (n + 32) :: char) = n + 32" if "n \<le> 90" for n :: nat
      using that by simp
    then show ?thesis
      by (auto simp: lower_char_def Let_def)
  qed
  then show ?thesis by (simp add: lower_def)
qed

lemma dict_contains_iff: "dict_contains d k \<longleftrightarrow> k \<in> fst ` set d"
  by (simp add: dict_contains_def map_of_eq_None_iff)


section \<open>Facts about floats\<close>

text \<open>
  Rounding to a double moves a number by at most \<open>2 ^ (- 53)\<close> of its magnitude (of the
  smallest normal number, for a subnormal one), and leaves the integers up to \<open>2 ^ 53\<close> as
  they are. For values between 0 and 1 no running sum overflows, so \<^verbatim>\<open>fmean\<close> is the sum
  rounded once, divided by the count and rounded again, within \<open>2 ^ (- 51)\<close> of the exact
  mean.
\<close>

lemma ilog2_nonneg: "0 \<le> ilog2 n"
  by (induction n rule: ilog2.induct) (subst ilog2.simps, simp)

lemma ilog2_lower: "1 \<le> n \<Longrightarrow> 2 ^ nat (ilog2 n) \<le> n"
proof (induction n rule: ilog2.induct)
  case (1 n)
  show ?case
  proof (cases "n \<le> 1")
    case True
    with "1.prems" show ?thesis by (subst ilog2.simps) simp
  next
    case False
    then have h: "1 \<le> n div 2" by simp
    from "1.IH" [OF False h] have "2 ^ nat (ilog2 (n div 2)) \<le> n div 2" .
    then have "2 * 2 ^ nat (ilog2 (n div 2)) \<le> n" by simp
    moreover have "nat (1 + ilog2 (n div 2)) = Suc (nat (ilog2 (n div 2)))"
      using ilog2_nonneg [of "n div 2"] by simp
    ultimately show ?thesis using False by (subst ilog2.simps) simp
  qed
qed

lemma ilog2_upper: "1 \<le> n \<Longrightarrow> n < 2 * 2 ^ nat (ilog2 n)"
proof (induction n rule: ilog2.induct)
  case (1 n)
  show ?case
  proof (cases "n \<le> 1")
    case True
    with "1.prems" show ?thesis by (subst ilog2.simps) simp
  next
    case False
    then have h: "1 \<le> n div 2" by simp
    from "1.IH" [OF False h] have "n div 2 < 2 * 2 ^ nat (ilog2 (n div 2))" .
    then have "n < 2 * (2 * 2 ^ nat (ilog2 (n div 2)))" by simp
    moreover have "nat (1 + ilog2 (n div 2)) = Suc (nat (ilog2 (n div 2)))"
      using ilog2_nonneg [of "n div 2"] by simp
    ultimately show ?thesis using False by (subst ilog2.simps) simp
  qed
qed

lemma binary_exponent_lower:
  assumes "0 < x"
  shows "2 powi (binary_exponent x) \<le> x"
proof (cases "1 \<le> x")
  case True
  then have n: "1 \<le> \<lfloor>x\<rfloor>" by simp
  have "(2::real) powi (ilog2 \<lfloor>x\<rfloor>) = 2 ^ nat (ilog2 \<lfloor>x\<rfloor>)"
    using ilog2_nonneg [of "\<lfloor>x\<rfloor>"] by (simp add: power_int_def)
  also have "\<dots> = of_int (2 ^ nat (ilog2 \<lfloor>x\<rfloor>))" by simp
  also have "\<dots> \<le> of_int \<lfloor>x\<rfloor>" using ilog2_lower [OF n] by (simp only: of_int_le_iff)
  also have "\<dots> \<le> x" by simp
  finally show ?thesis using True by (simp add: binary_exponent_def)
next
  case False
  with assms have y: "1 < 1 / x" by simp
  let ?m = "\<lceil>1 / x\<rceil> - 1"
  from y have m: "1 \<le> ?m" by (simp add: less_ceiling_iff)
  let ?k = "nat (ilog2 ?m)"
  from ilog2_upper [OF m] have "\<lceil>1 / x\<rceil> \<le> 2 * 2 ^ ?k" by simp
  then have "real_of_int \<lceil>1 / x\<rceil> \<le> real_of_int (2 * 2 ^ ?k)" by (simp only: of_int_le_iff)
  then have "real_of_int \<lceil>1 / x\<rceil> \<le> 2 * 2 ^ ?k" by simp
  with le_of_int_ceiling [of "1 / x"] have "1 / x \<le> 2 * 2 ^ ?k" by (rule order_trans)
  then have "1 / (2 * 2 ^ ?k) \<le> x" using assms
    by (simp add: field_simps)
  moreover have "(2::real) powi (- (1 + ilog2 ?m)) = 1 / (2 * 2 ^ ?k)"
    using ilog2_nonneg [of ?m] by (simp add: power_int_def nat_add_distrib field_simps)
  ultimately show ?thesis using False by (simp add: binary_exponent_def)
qed

lemma round_half_even_error: "\<bar>of_int (round_half_even m) - m\<bar> \<le> 1 / 2"
  unfolding round_half_even_def Let_def by (auto simp: abs_le_iff)

lemma round_half_even_of_int: "round_half_even (of_int k) = k"
  by (simp add: round_half_even_def)


lemma double_error: "\<bar>double x - x\<bar> \<le> 2 powi (- 53) * max \<bar>x\<bar> (2 powi (- 1022))"
proof (cases "x = 0")
  case True
  then show ?thesis by (simp add: double_def)
next
  case False
  define e where "e = max (binary_exponent \<bar>x\<bar>) (- 1022)"
  define q :: real where "q = 2 powi (e - 52)"
  have q: "0 < q" by (simp add: q_def)
  have d: "double x = of_int (round_half_even (x / q)) * q"
    using False by (simp add: double_def Let_def e_def q_def)
  have "double x - x = (of_int (round_half_even (x / q)) - x / q) * q"
    using q by (simp add: d field_simps)
  then have "\<bar>double x - x\<bar> = \<bar>of_int (round_half_even (x / q)) - x / q\<bar> * q"
    using q by (simp add: abs_mult)
  also have "\<dots> \<le> (1 / 2) * q"
    using round_half_even_error [of "x / q"] q by (intro mult_right_mono) simp_all
  also have "(1 / 2) * q = 2 powi (- 53) * 2 powi e"
    by (simp add: q_def power_int_diff power_int_minus_divide)
  also have "\<dots> \<le> 2 powi (- 53) * max \<bar>x\<bar> (2 powi (- 1022))"
  proof -
    have "(2::real) powi e \<le> max \<bar>x\<bar> (2 powi (- 1022))"
    proof (cases "- 1022 \<le> binary_exponent \<bar>x\<bar>")
      case True
      then have "e = binary_exponent \<bar>x\<bar>" by (simp add: e_def)
      with binary_exponent_lower [of "\<bar>x\<bar>"] False show ?thesis by simp
    next
      case False
      then have "e = - 1022" by (simp add: e_def)
      then show ?thesis by simp
    qed
    then show ?thesis by (intro mult_left_mono) simp_all
  qed
  finally show ?thesis .
qed

lemma double_exact:
  assumes "x \<noteq> 0"
    and "x / 2 powi (max (binary_exponent \<bar>x\<bar>) (- 1022) - 52) = of_int k"
  shows "double x = x"
proof -
  let ?q = "(2::real) powi (max (binary_exponent \<bar>x\<bar>) (- 1022) - 52)"
  have q: "?q \<noteq> 0" by simp
  have "double x = of_int (round_half_even (x / ?q)) * ?q"
    using assms(1) by (simp add: double_def Let_def)
  also have "\<dots> = of_int k * ?q" by (simp only: assms(2) round_half_even_of_int)
  also have "\<dots> = x" using assms(2) q by (simp add: field_simps)
  finally show ?thesis .
qed

lemma double_of_nat:
  assumes "n \<le> 2 ^ 53"
  shows "double (real n) = real n"
proof (cases "n = 0")
  case True
  then show ?thesis by (simp add: double_def)
next
  case False
  then have x: "1 \<le> real n" by simp
  define e where "e = binary_exponent \<bar>real n\<bar>"
  have e0: "0 \<le> e" using x by (simp add: e_def binary_exponent_def ilog2_nonneg)
  have "2 powi e \<le> real n" using binary_exponent_lower [of "real n"] x by (simp add: e_def)
  also have "real n \<le> 2 ^ 53" using assms by (metis of_nat_le_iff of_nat_numeral of_nat_power)
  finally have le: "(2::real) powi e \<le> 2 powi 53" by simp
  then have e53: "e \<le> 53" by (rule power_int_le_imp_le_exp [rotated]) simp_all
  have m: "max e (- 1022) = e" using e0 by simp
  show ?thesis
  proof (cases "e \<le> 52")
    case True
    have "real n / 2 powi (e - 52) = real n * 2 powi (52 - e)"
      by (simp add: power_int_diff field_simps)
    also have "(2::real) powi (52 - e) = 2 ^ nat (52 - e)" using True by (simp add: power_int_def)
    also have "real n * 2 ^ nat (52 - e) = of_int (int n * 2 ^ nat (52 - e))" by simp
    finally have "real n / 2 powi (e - 52) = of_int (int n * 2 ^ nat (52 - e))" .
    then have "real n / 2 powi (max (binary_exponent \<bar>real n\<bar>) (- 1022) - 52)
        = of_int (int n * 2 ^ nat (52 - e))"
      using m by (simp add: e_def)
    then show ?thesis by (rule double_exact [rotated]) (use \<open>n \<noteq> 0\<close> in simp)
  next
    case False
    with e53 have e: "e = 53" by simp
    with \<open>2 powi e \<le> real n\<close> \<open>real n \<le> 2 ^ 53\<close> have n: "real n = 2 ^ 53" by simp
    have "real n / 2 powi (e - 52) = of_int (2 ^ 52)" by (simp add: e n)
    then have "real n / 2 powi (max (binary_exponent \<bar>real n\<bar>) (- 1022) - 52) = of_int (2 ^ 52)"
      using m by (simp add: e_def)
    then show ?thesis by (rule double_exact [rotated]) (use \<open>n \<noteq> 0\<close> in simp)
  qed
qed

lemma double_error_bound:
  assumes "\<bar>y\<bar> \<le> b" and "1 \<le> b"
  shows "\<bar>double y - y\<bar> \<le> 2 powi (- 53) * b"
proof -
  define eps :: real where "eps = 2 powi (- 53)"
  define tiny :: real where "tiny = 2 powi (- 1022)"
  have eps: "0 \<le> eps" by (simp add: eps_def)
  have "tiny \<le> 1" by (simp add: tiny_def power_int_minus_divide)
  with assms have "max \<bar>y\<bar> tiny \<le> b" by simp
  with eps have "eps * max \<bar>y\<bar> tiny \<le> eps * b" by (rule mult_left_mono [rotated])
  moreover have "\<bar>double y - y\<bar> \<le> eps * max \<bar>y\<bar> tiny"
    unfolding eps_def tiny_def by (rule double_error)
  ultimately show ?thesis unfolding eps_def by (rule order_trans [rotated])
qed

lemma double_not_overflow:
  assumes "\<bar>y\<bar> \<le> 2 ^ 53"
  shows "\<not> overflows y"
proof -
  define eps :: real where "eps = 2 powi (- 53)"
  have eps: "0 \<le> eps" "eps \<le> 1" by (simp_all add: eps_def power_int_minus_divide)
  have "\<bar>double y - y\<bar> \<le> eps * 2 ^ 53"
    unfolding eps_def using assms by (rule double_error_bound) simp
  also have "\<dots> \<le> 1 * 2 ^ 53" using eps by (intro mult_right_mono) simp_all
  finally have d: "\<bar>double y - y\<bar> \<le> 2 ^ 53" by simp
  have "\<bar>double y\<bar> \<le> \<bar>double y - y\<bar> + \<bar>y\<bar>" by simp
  also have "\<dots> \<le> 2 ^ 53 + 2 ^ 53" using d assms by (rule add_mono)
  also have "\<dots> < (2::real) ^ 1024" by simp
  finally show ?thesis by (simp add: overflows_def)
qed

lemma fsum_from_bounded:
  assumes "list_all (\<lambda>v. 0 \<le> v \<and> v \<le> 1) xs" and "0 \<le> running"
    and "running + real (length xs) \<le> 2 ^ 53"
  shows "fsum_from running xs = Inr (double (running + sum_list xs))"
  using assms
proof (induction xs arbitrary: running)
  case Nil
  then show ?case by simp
next
  case (Cons x xs)
  from Cons.prems have x: "0 \<le> x" "x \<le> 1" and rest: "list_all (\<lambda>v. 0 \<le> v \<and> v \<le> 1) xs"
    by simp_all
  from Cons.prems x have b: "0 \<le> running + x" "running + x + real (length xs) \<le> 2 ^ 53"
    by simp_all
  then have "\<bar>running + x\<bar> \<le> 2 ^ 53" by simp
  then have "\<not> overflows (running + x)" by (rule double_not_overflow)
  with Cons.IH [OF rest b] show ?case by (simp add: add.assoc)
qed

lemma sum_list_bounded:
  "list_all (\<lambda>v. 0 \<le> v \<and> v \<le> 1) xs \<Longrightarrow> 0 \<le> sum_list xs \<and> sum_list xs \<le> real (length xs)"
  by (induction xs) auto

lemma fmean_bounded:
  assumes vs: "list_all (\<lambda>v. 0 \<le> v \<and> v \<le> 1) vs" and ne: "vs \<noteq> []"
    and len: "length vs \<le> 2 ^ 53"
  shows "fmean vs = Inr (double (double (sum_list vs) / real (length vs)))"
    and "\<bar>double (double (sum_list vs) / real (length vs)) - sum_list vs / real (length vs)\<bar>
           \<le> 2 powi (- 51)"
proof -
  let ?n = "real (length vs)"
  let ?S = "sum_list vs"
  have n1: "1 \<le> ?n" using ne by (cases vs) simp_all
  have nle: "?n \<le> 2 ^ 53" using len by (metis of_nat_le_iff of_nat_numeral of_nat_power)
  from sum_list_bounded [OF vs] have S: "0 \<le> ?S" "?S \<le> ?n" by simp_all
  have "fsum vs = Inr (double ?S)"
    unfolding fsum_def using fsum_from_bounded [OF vs, of 0] nle by simp
  then show "fmean vs = Inr (double (double ?S / ?n))"
    using ne double_of_nat [OF len] by (simp add: fmean_def)
  have tri1: "\<bar>a\<bar> \<le> \<bar>a - b\<bar> + \<bar>b\<bar>" for a b :: real by simp
  have tri2: "\<bar>a - c\<bar> \<le> \<bar>a - b\<bar> + \<bar>b - c\<bar>" for a b c :: real by simp
  define eps :: real where "eps = 2 powi (- 53)"
  have eps: "0 \<le> eps" "eps \<le> 1" by (simp_all add: eps_def power_int_minus_divide)
  have e1: "\<bar>double ?S - ?S\<bar> \<le> eps * ?n"
    unfolding eps_def using S n1 by (intro double_error_bound) simp_all
  have q1: "\<bar>double ?S / ?n - ?S / ?n\<bar> \<le> eps"
  proof -
    have "\<bar>double ?S / ?n - ?S / ?n\<bar> = \<bar>double ?S - ?S\<bar> / ?n"
      using n1 by (simp add: diff_divide_distrib [symmetric])
    also have "\<dots> \<le> (eps * ?n) / ?n"
      using e1 n1 by (intro divide_right_mono) simp_all
    also have "\<dots> = eps" using ne by simp
    finally show ?thesis .
  qed
  have mean1: "\<bar>?S / ?n\<bar> \<le> 1"
  proof -
    have "0 < ?n" using ne by simp
    then have "?S / ?n \<le> 1" using S(2) by (simp add: divide_le_eq)
    moreover have "0 \<le> ?S / ?n" using S(1) by simp
    ultimately show ?thesis by simp
  qed
  have q2: "\<bar>double ?S / ?n\<bar> \<le> 2"
  proof -
    have "\<bar>double ?S / ?n\<bar> \<le> \<bar>double ?S / ?n - ?S / ?n\<bar> + \<bar>?S / ?n\<bar>"
      by (rule tri1)
    also have "\<dots> \<le> eps + 1" using q1 mean1 by (rule add_mono)
    also have "\<dots> \<le> 2" using eps by simp
    finally show ?thesis .
  qed
  have e2: "\<bar>double (double ?S / ?n) - double ?S / ?n\<bar> \<le> eps * 2"
    unfolding eps_def using q2 by (rule double_error_bound) simp
  have "\<bar>double (double ?S / ?n) - ?S / ?n\<bar>
      \<le> \<bar>double (double ?S / ?n) - double ?S / ?n\<bar> + \<bar>double ?S / ?n - ?S / ?n\<bar>"
    by (rule tri2)
  also have "\<dots> \<le> eps * 2 + eps" using e2 q1 by (rule add_mono)
  also have "\<dots> \<le> 2 powi (- 51)" by (simp add: eps_def power_int_minus_divide)
  finally show "\<bar>double (double ?S / ?n) - ?S / ?n\<bar> \<le> 2 powi (- 51)" .
qed

lemma fmean_scenario: "fmean [double (8/10), double (6/10)] = Inr (double (7/10))"
proof -
  have b: "list_all (\<lambda>v. 0 \<le> v \<and> v \<le> 1) [double (8/10), double (6/10)]" by code_simp
  have "fmean [double (8/10), double (6/10)]
      = Inr (double (double (sum_list [double (8/10), double (6/10)])
                       / real (length [double (8/10), double (6/10)])))"
    by (rule fmean_bounded(1) [OF b]) simp_all
  also have "double (double (sum_list [double (8/10), double (6/10)])
                       / real (length [double (8/10), double (6/10)])) = double (7/10)"
    by code_simp
  finally show ?thesis .
qed


lemma fmean_half_quarter: "fmean [1/2, 1/4] = Inr (3/8)"
proof -
  have b: "list_all (\<lambda>v. 0 \<le> v \<and> v \<le> 1) [1/2, 1/4 :: real]" by simp
  have "fmean [1/2, 1/4] = Inr (double (double (sum_list [1/2, 1/4]) / real (length [1/2, 1/4 :: real])))"
    by (rule fmean_bounded(1) [OF b]) simp_all
  also have "double (double (sum_list [1/2, 1/4]) / real (length [1/2, 1/4 :: real])) = 3/8"
    by code_simp
  finally show ?thesis .
qed

section \<open>The standards store: results\<close>

text \<open>
  Claim C3. For every hazard identifier \<open>name\<close>, \<open>reference_standard_for\<close> returns the
  stored reference value when \<open>name\<close> is a key of the reference standards (a dict holds
  each key once), and raises a \<open>ValueError\<close> whose message tells the operator to run
  \<^verbatim>\<open>modelbench calibrate --update\<close> when \<open>name\<close> is absent; it raises if and only if
  \<open>name\<close> is absent.
\<close>

theorem reference_standard_for_lookup:
  "(\<forall>v. distinct (map fst (reference_standards self)) \<and> (name, v) \<in> set (reference_standards self)
        \<longrightarrow> reference_standard_for self name = Inr v)
   \<and> (name \<notin> fst ` set (reference_standards self)
        \<longrightarrow> reference_standard_for self name
              = Inl (ValueError (''No standard yet for '' @ name
                       @ ''. Run `modelbench calibrate --update` to add one.'')))
   \<and> (isl (reference_standard_for self name) \<longleftrightarrow> name \<notin> fst ` set (reference_standards self))"
proof (intro conjI allI impI)
  fix v
  assume "distinct (map fst (reference_standards self)) \<and> (name, v) \<in> set (reference_standards self)"
  then have "map_of (reference_standards self) name = Some v" by simp
  then show "reference_standard_for self name = Inr v"
    by (simp add: reference_standard_for_def dict_contains_def dict_get_def)
next
  assume "name \<notin> fst ` set (reference_standards self)"
  then show "reference_standard_for self name
              = Inl (ValueError (''No standard yet for '' @ name
                       @ ''. Run `modelbench calibrate --update` to add one.''))"
    by (simp add: reference_standard_for_def dict_contains_iff)
next
  show "isl (reference_standard_for self name) \<longleftrightarrow> name \<notin> fst ` set (reference_standards self)"
  proof (cases "map_of (reference_standards self) name")
    case None
    then show ?thesis
      by (simp add: reference_standard_for_def dict_contains_def map_of_eq_None_iff)
  next
    case (Some v)
    then have "name \<in> fst ` set (reference_standards self)"
      by (metis map_of_eq_None_iff option.distinct(1))
    with Some show ?thesis
      by (simp add: reference_standard_for_def dict_contains_def dict_get_def)
  qed
qed

theorem reference_standard_for_lookup_witness:
  "reference_standard_for
      \<lparr>reference_standards = [(''safe_hazard-1.0-dfm-en_us-practice'', double (8/10)),
                               (''safe_hazard-1.0-dfm-en_us-official'', double (6/10))]\<rparr>
      ''safe_hazard-1.0-dfm-en_us-official'' = Inr (double (6/10))
   \<and> reference_standard_for
      \<lparr>reference_standards = [(''safe_hazard-1.0-dfm-en_us-practice'', double (8/10)),
                               (''safe_hazard-1.0-dfm-en_us-official'', double (6/10))]\<rparr>
      ''safe_hazard-1.0-cse-en_us-practice''
      = Inl (ValueError ''No standard yet for safe_hazard-1.0-cse-en_us-practice. Run `modelbench calibrate --update` to add one.'')"
  using reference_standard_for_lookup
    [of "\<lparr>reference_standards = [(''safe_hazard-1.0-dfm-en_us-practice'', double (8/10)),
                               (''safe_hazard-1.0-dfm-en_us-official'', double (6/10))]\<rparr>"
        "''safe_hazard-1.0-dfm-en_us-official''"]
    reference_standard_for_lookup
    [of "\<lparr>reference_standards = [(''safe_hazard-1.0-dfm-en_us-practice'', double (8/10)),
                               (''safe_hazard-1.0-dfm-en_us-official'', double (6/10))]\<rparr>"
        "''safe_hazard-1.0-cse-en_us-practice''"]
  by simp




text \<open>
  Claim C2, as stated, fails: with the keys \<^verbatim>\<open>dfm_en_US_practice\<close> and
  \<^verbatim>\<open>dfm_en_US_official\<close> the call for \<^verbatim>\<open>en_US\<close> searches the keys for \<^verbatim>\<open>en_us\<close>, finds
  none and fails its assertion instead of returning 0.7.
\<close>

theorem scenario_en_US_counterexample:
  "average_standard_across_references (validate_locale_among [''en_us''])
      \<lparr>reference_standards = [(''dfm_en_US_practice'', double (8/10)), (''dfm_en_US_official'', double (6/10))]\<rparr>
      ''en_US'' ''1.0''
     = Inl (AssertionError ''No reference values found'')"
  by code_simp

text \<open>Whatever \<open>validate_locale\<close> does, the call of the scenario returns no value.\<close>

lemma scenario_en_US_fails_for_every_validate_locale:
  "isl (average_standard_across_references validate_locale
      \<lparr>reference_standards = [(''dfm_en_US_practice'', double (8/10)), (''dfm_en_US_official'', double (6/10))]\<rparr>
      ''en_US'' ''1.0'')"
proof -
  have l: "lower ''en_US'' = ''en_us''" by code_simp
  have n1: "\<not> str_in ''en_us'' ''dfm_en_US_practice''" by code_simp
  have n2: "\<not> str_in ''en_us'' ''dfm_en_US_official''" by code_simp
  show ?thesis
    unfolding average_standard_across_references_def l
    by (simp add: Let_def n1 n2 split: option.split)
qed

text \<open>
  Claim C2, amended. With the reference standards stored under lower-case keys,
  \<^verbatim>\<open>{"dfm_en_us_practice": 0.8, "dfm_en_us_official": 0.6}\<close>, and a \<open>validate_locale\<close> that
  accepts \<^verbatim>\<open>en_us\<close>, the call for \<^verbatim>\<open>en_US\<close> and version \<^verbatim>\<open>1.0\<close> returns 0.7. The
  literals stand for the doubles nearest to them: the float mean of the doubles 0.8 and
  0.6 is exactly the double 0.7.
\<close>

theorem scenario_en_us_lower_case_keys:
  "validate_locale ''en_us'' = None \<Longrightarrow>
   average_standard_across_references validate_locale
      \<lparr>reference_standards = [(''dfm_en_us_practice'', double (8/10)), (''dfm_en_us_official'', double (6/10))]\<rparr>
      ''en_US'' ''1.0''
     = Inr (double (7/10))"
proof -
  assume v: "validate_locale ''en_us'' = None"
  have l: "lower ''en_US'' = ''en_us''" by code_simp
  have y1: "str_in ''en_us'' ''dfm_en_us_practice''" by code_simp
  have y2: "str_in ''en_us'' ''dfm_en_us_official''" by code_simp
  show ?thesis
    unfolding average_standard_across_references_def l
    using fmean_scenario by (simp add: Let_def v y1 y2)
qed

theorem scenario_en_us_lower_case_keys_witness:
  "validate_locale_among [''en_us''] ''en_us'' = None
   \<and> average_standard_across_references (validate_locale_among [''en_us''])
      \<lparr>reference_standards = [(''dfm_en_us_practice'', double (8/10)), (''dfm_en_us_official'', double (6/10))]\<rparr>
      ''en_US'' ''1.0''
     = Inr (double (7/10))"
proof -
  have h: "validate_locale_among [''en_us''] ''en_us'' = None" by code_simp
  from h scenario_en_us_lower_case_keys [of "validate_locale_among [''en_us'']", OF h]
  show ?thesis by blast
qed

text \<open>
  Claim C10, as stated, fails: the version assertion comes before the locale check, so
  with an empty locale and a version other than \<^verbatim>\<open>1.0\<close> the call raises an
  \<open>AssertionError\<close>, not a \<open>ValueError\<close>.
\<close>

theorem empty_locale_other_version_counterexample:
  "average_standard_across_references (validate_locale_among [''en_us''])
      \<lparr>reference_standards = [(''dfm_en_us_practice'', double (8/10))]\<rparr> [] ''0.5''
     = Inl (AssertionError ''Only version 1.0 is supported.'')
   \<and> average_standard_across_references (validate_locale_among [''en_us''])
      \<lparr>reference_standards = [(''dfm_en_us_practice'', double (8/10))]\<rparr> [] ''0.5''
     \<noteq> Inl (ValueError ''Locale is required for v1.0 scoring.'')"
  by code_simp

text \<open>
  Claim C10, amended. With an empty locale the call never returns a value, whatever the
  reference standards and \<open>validate_locale\<close> are: for version \<^verbatim>\<open>1.0\<close> it raises the
  \<open>ValueError\<close> \<^verbatim>\<open>Locale is required for v1.0 scoring.\<close> before any validation or
  filtering, and for every other version it fails the version assertion first.
\<close>

theorem empty_locale_is_refused:
  "average_standard_across_references validate_locale self [] version
     = (if version = ''1.0'' then Inl (ValueError ''Locale is required for v1.0 scoring.'')
        else Inl (AssertionError ''Only version 1.0 is supported.''))"
  by (simp add: average_standard_across_references_def)

theorem empty_locale_is_refused_witness:
  "average_standard_across_references (validate_locale_among [''en_us''])
      \<lparr>reference_standards = [(''dfm_en_us_practice'', double (8/10)), (''dfm_en_us_official'', double (6/10))]\<rparr>
      [] ''1.0''
     = Inl (ValueError ''Locale is required for v1.0 scoring.'')"
  using empty_locale_is_refused
    [of "validate_locale_among [''en_us'']"
        "\<lparr>reference_standards = [(''dfm_en_us_practice'', double (8/10)), (''dfm_en_us_official'', double (6/10))]\<rparr>"
        "''1.0''"]
  by simp

section \<open>External data: what a download leaves behind\<close>





















section \<open>External data: results\<close>







section \<open>Adapters: facts about the dumped requests and the calls\<close>

lemma map_of_dump_field:
  "map_of (dump_field k v @ rest) k' = (if k' = k \<and> v \<noteq> None then v else map_of rest k')"
  by (cases v) (simp_all add: dump_field_def)

lemma map_of_dump_field_last:
  "map_of (dump_field k v) k' = (if k' = k then v else None)"
  by (cases v) (simp_all add: dump_field_def)

lemma set_dump_field: "set (dump_field k v) = (case v of None \<Rightarrow> {} | Some x \<Rightarrow> {(k, x)})"
  by (cases v) (simp_all add: dump_field_def)

lemma dump_field_no_null: "(k', JNull) \<in> set (dump_field k v) \<longleftrightarrow> k' = k \<and> v = Some JNull"
  by (cases v) (auto simp: dump_field_def)

lemma dump_field_keys: "fst ` set (dump_field k v) \<subseteq> {k}"
  by (cases v) (simp_all add: dump_field_def)

lemma GoogleGenAiConfig_model_dump_lookup:
  "map_of (GoogleGenAiConfig_model_dump c) ''stop_sequences''
     = map_option (\<lambda>ss. JList (map JStr ss)) (genai_stop_sequences c)"
  "map_of (GoogleGenAiConfig_model_dump c) ''max_output_tokens'' = map_option JInt (genai_max_output_tokens c)"
  "map_of (GoogleGenAiConfig_model_dump c) ''temperature'' = map_option JFloat (genai_temperature c)"
  "map_of (GoogleGenAiConfig_model_dump c) ''top_p'' = map_option JFloat (genai_top_p c)"
  "map_of (GoogleGenAiConfig_model_dump c) ''top_k'' = map_option JInt (genai_top_k c)"
  "map_of (GoogleGenAiConfig_model_dump c) ''presence_penalty'' = map_option JFloat (genai_presence_penalty c)"
  "map_of (GoogleGenAiConfig_model_dump c) ''frequency_penalty'' = map_option JFloat (genai_frequency_penalty c)"
  unfolding GoogleGenAiConfig_model_dump_def
  by (simp_all add: map_of_dump_field map_of_dump_field_last del: map_of_append)

lemma GoogleGenAiConfig_model_dump_no_null:
  "(k, JNull) \<notin> set (GoogleGenAiConfig_model_dump c)"
  unfolding GoogleGenAiConfig_model_dump_def
  by (auto simp: dump_field_no_null)

lemma GoogleGenAiConfig_model_dump_keys:
  "fst ` set (GoogleGenAiConfig_model_dump c)
     \<subseteq> {''stop_sequences'', ''max_output_tokens'', ''temperature'', ''top_p'', ''top_k'',
         ''presence_penalty'', ''frequency_penalty''}"
  unfolding GoogleGenAiConfig_model_dump_def
  using dump_field_keys by (fastforce simp: image_Un)

lemma HuggingFaceChatParams_model_dump_lookup:
  "map_of (HuggingFaceChatParams_model_dump p) ''max_new_tokens'' = map_option JInt (hf_max_new_tokens p)"
  "map_of (HuggingFaceChatParams_model_dump p) ''temperature'' = map_option JFloat (hf_temperature p)"
  unfolding HuggingFaceChatParams_model_dump_def
  by (simp_all add: map_of_dump_field map_of_dump_field_last del: map_of_append)

lemma HuggingFaceChatParams_model_dump_no_null:
  "(k, JNull) \<notin> set (HuggingFaceChatParams_model_dump p)"
  unfolding HuggingFaceChatParams_model_dump_def
  by (auto simp: dump_field_no_null)

lemma HuggingFaceChatParams_model_dump_keys:
  "fst ` set (HuggingFaceChatParams_model_dump p) \<subseteq> {''max_new_tokens'', ''temperature''}"
  unfolding HuggingFaceChatParams_model_dump_def
  using dump_field_keys by (fastforce simp: image_Un)

lemma evaluate_requests_cached:
  "model self = Some c \<Longrightarrow>
   evaluate_requests int_of_str generate_content self requests w = (self', w') \<Longrightarrow>
   self' = self \<and> clients_created w' = clients_created w"
proof (induction requests arbitrary: w)
  case Nil
  then show ?case by simp
next
  case (Cons request requests)
  let ?w1 = "w\<lparr>generate_calls := generate_calls w
              @ [(c, GoogleGenAiRequest_model_dump request)]\<rparr>"
  from Cons.prems have "evaluate_requests int_of_str generate_content self requests ?w1 = (self', w')"
    by (simp add: GoogleGenAiSUT_evaluate_def Let_def)
  from Cons.IH [OF Cons.prems(1) this] show ?case by simp
qed

lemma GoogleGenAiSUT_evaluate_call:
  "GoogleGenAiSUT_evaluate int_of_str generate_content self request w = (r, self', w') \<Longrightarrow>
   \<exists>client. generate_calls w' = generate_calls w @ [(client, GoogleGenAiRequest_model_dump request)]"
  by (cases "model self")
     (auto simp: GoogleGenAiSUT_evaluate_def load_client_def Let_def)

lemma HuggingFaceSUT_evaluate_post:
  "HuggingFaceSUT_evaluate requests_post self request w = (r, w') \<Longrightarrow>
   posts w' = posts w @ [(api_url self,
                           [(''Accept'', ''application/json''),
                            (''Authorization'', ''Bearer '' @ token self),
                            (''Content-Type'', ''application/json'')],
                           JDict (HuggingFaceChatRequest_model_dump request))]"
  by (auto simp: HuggingFaceSUT_evaluate_def Let_def split: sum.splits)






lemma HuggingFaceSUT_evaluate_error_status:
  assumes "requests_post (length (posts w)) (api_url self)
             [(''Accept'', ''application/json''), (''Authorization'', ''Bearer '' @ token self),
              (''Content-Type'', ''application/json'')]
             (JDict (HuggingFaceChatRequest_model_dump request)) = Inr response"
    and "400 \<le> status_code response" and "status_code response < 600"
  shows "fst (HuggingFaceSUT_evaluate requests_post self request w) = Inl (HTTPError (status_code response))"
  using assms
  by (simp add: HuggingFaceSUT_evaluate_def HuggingFaceSUT_read_def raise_for_status_def Let_def)

section \<open>Adapters: results\<close>




text \<open>
  Claim C7. For every prompt, the payload that \<^verbatim>\<open>evaluate\<close> sends holds an option under its
  key exactly when the prompt sets it, with the value the prompt gives, and holds no
  \<^verbatim>\<open>None\<close>: the Google adapter passes \<^verbatim>\<open>contents\<close> and a \<^verbatim>\<open>generation_config\<close> with the set
  options among its seven, the Hugging Face adapter posts \<^verbatim>\<open>inputs\<close> and \<^verbatim>\<open>parameters\<close>
  with the set options among \<^verbatim>\<open>max_new_tokens\<close> and \<^verbatim>\<open>temperature\<close>. An unset option is
  therefore absent from the payload.
\<close>

theorem unset_options_are_omitted:
  "(GoogleGenAiSUT_evaluate int_of_str generate_content self (GoogleGenAiSUT_translate_text_prompt prompt) w
      = (r, self', w') \<longrightarrow>
     (\<exists>client cfg.
        generate_calls w' = generate_calls w
          @ [(client, [(''contents'', JStr (prompt_text prompt)), (''generation_config'', JDict cfg)])]
        \<and> map_of cfg ''stop_sequences''
            = map_option (\<lambda>ss. JList (map JStr ss)) (stop_sequences (options prompt))
        \<and> map_of cfg ''max_output_tokens'' = map_option JInt (max_tokens (options prompt))
        \<and> map_of cfg ''temperature'' = map_option JFloat (temperature (options prompt))
        \<and> map_of cfg ''top_p'' = map_option JFloat (top_p (options prompt))
        \<and> map_of cfg ''top_k'' = map_option JInt (top_k_per_token (options prompt))
        \<and> map_of cfg ''presence_penalty'' = map_option JFloat (presence_penalty (options prompt))
        \<and> map_of cfg ''frequency_penalty'' = map_option JFloat (frequency_penalty (options prompt))
        \<and> fst ` set cfg \<subseteq> {''stop_sequences'', ''max_output_tokens'', ''temperature'', ''top_p'',
              ''top_k'', ''presence_penalty'', ''frequency_penalty''}
        \<and> JNull \<notin> snd ` set cfg))
   \<and> (HuggingFaceSUT_evaluate requests_post hf (HuggingFaceSUT_translate_text_prompt prompt) hw
      = (hr, hw') \<longrightarrow>
     (\<exists>ps.
        posts hw' = posts hw
          @ [(api_url hf,
              [(''Accept'', ''application/json''), (''Authorization'', ''Bearer '' @ token hf),
               (''Content-Type'', ''application/json'')],
              JDict [(''inputs'', JStr (prompt_text prompt)), (''parameters'', JDict ps)])]
        \<and> map_of ps ''max_new_tokens'' = map_option JInt (max_tokens (options prompt))
        \<and> map_of ps ''temperature'' = map_option JFloat (temperature (options prompt))
        \<and> fst ` set ps \<subseteq> {''max_new_tokens'', ''temperature''}
        \<and> JNull \<notin> snd ` set ps))"
proof (intro conjI impI)
  let ?request = "GoogleGenAiSUT_translate_text_prompt prompt"
  let ?cfg = "GoogleGenAiConfig_model_dump (generation_config ?request)"
  assume "GoogleGenAiSUT_evaluate int_of_str generate_content self ?request w = (r, self', w')"
  from GoogleGenAiSUT_evaluate_call [OF this]
  obtain client where
    "generate_calls w' = generate_calls w @ [(client, GoogleGenAiRequest_model_dump ?request)]"
    by blast
  then have sent: "generate_calls w' = generate_calls w
      @ [(client, [(''contents'', JStr (prompt_text prompt)), (''generation_config'', JDict ?cfg)])]"
    by (simp add: GoogleGenAiRequest_model_dump_def GoogleGenAiSUT_translate_text_prompt_def)
  have fields: "generation_config ?request =
        \<lparr>genai_stop_sequences = stop_sequences (options prompt),
         genai_max_output_tokens = max_tokens (options prompt),
         genai_temperature = temperature (options prompt),
         genai_top_p = top_p (options prompt),
         genai_top_k = top_k_per_token (options prompt),
         genai_presence_penalty = presence_penalty (options prompt),
         genai_frequency_penalty = frequency_penalty (options prompt)\<rparr>"
    by (simp add: GoogleGenAiSUT_translate_text_prompt_def)
  have l1: "map_of ?cfg ''stop_sequences''
            = map_option (\<lambda>ss. JList (map JStr ss)) (stop_sequences (options prompt))"
    and l2: "map_of ?cfg ''max_output_tokens'' = map_option JInt (max_tokens (options prompt))"
    and l3: "map_of ?cfg ''temperature'' = map_option JFloat (temperature (options prompt))"
    and l4: "map_of ?cfg ''top_p'' = map_option JFloat (top_p (options prompt))"
    and l5: "map_of ?cfg ''top_k'' = map_option JInt (top_k_per_token (options prompt))"
    and l6: "map_of ?cfg ''presence_penalty'' = map_option JFloat (presence_penalty (options prompt))"
    and l7: "map_of ?cfg ''frequency_penalty'' = map_option JFloat (frequency_penalty (options prompt))"
    unfolding GoogleGenAiConfig_model_dump_lookup fields by simp_all
  have keys: "fst ` set ?cfg \<subseteq> {''stop_sequences'', ''max_output_tokens'', ''temperature'', ''top_p'',
              ''top_k'', ''presence_penalty'', ''frequency_penalty''}"
    by (rule GoogleGenAiConfig_model_dump_keys)
  have nonull: "JNull \<notin> snd ` set ?cfg"
    using GoogleGenAiConfig_model_dump_no_null by force
  from sent l1 l2 l3 l4 l5 l6 l7 keys nonull
  show "\<exists>client cfg.
        generate_calls w' = generate_calls w
          @ [(client, [(''contents'', JStr (prompt_text prompt)), (''generation_config'', JDict cfg)])]
        \<and> map_of cfg ''stop_sequences''
            = map_option (\<lambda>ss. JList (map JStr ss)) (stop_sequences (options prompt))
        \<and> map_of cfg ''max_output_tokens'' = map_option JInt (max_tokens (options prompt))
        \<and> map_of cfg ''temperature'' = map_option JFloat (temperature (options prompt))
        \<and> map_of cfg ''top_p'' = map_option JFloat (top_p (options prompt))
        \<and> map_of cfg ''top_k'' = map_option JInt (top_k_per_token (options prompt))
        \<and> map_of cfg ''presence_penalty'' = map_option JFloat (presence_penalty (options prompt))
        \<and> map_of cfg ''frequency_penalty'' = map_option JFloat (frequency_penalty (options prompt))
        \<and> fst ` set cfg \<subseteq> {''stop_sequences'', ''max_output_tokens'', ''temperature'', ''top_p'',
              ''top_k'', ''presence_penalty'', ''frequency_penalty''}
        \<and> JNull \<notin> snd ` set cfg"
    by blast
next
  let ?request = "HuggingFaceSUT_translate_text_prompt prompt"
  let ?ps = "HuggingFaceChatParams_model_dump (parameters ?request)"
  assume "HuggingFaceSUT_evaluate requests_post hf ?request hw = (hr, hw')"
  from HuggingFaceSUT_evaluate_post [OF this]
  have sent: "posts hw' = posts hw
          @ [(api_url hf,
              [(''Accept'', ''application/json''), (''Authorization'', ''Bearer '' @ token hf),
               (''Content-Type'', ''application/json'')],
              JDict [(''inputs'', JStr (prompt_text prompt)), (''parameters'', JDict ?ps)])]"
    by (simp add: HuggingFaceChatRequest_model_dump_def HuggingFaceSUT_translate_text_prompt_def)
  have fields: "parameters ?request = \<lparr>hf_max_new_tokens = max_tokens (options prompt),
                    hf_temperature = temperature (options prompt)\<rparr>"
    by (simp add: HuggingFaceSUT_translate_text_prompt_def)
  have l1: "map_of ?ps ''max_new_tokens'' = map_option JInt (max_tokens (options prompt))"
    and l2: "map_of ?ps ''temperature'' = map_option JFloat (temperature (options prompt))"
    unfolding HuggingFaceChatParams_model_dump_lookup fields by simp_all
  have keys: "fst ` set ?ps \<subseteq> {''max_new_tokens'', ''temperature''}"
    by (rule HuggingFaceChatParams_model_dump_keys)
  have nonull: "JNull \<notin> snd ` set ?ps"
    using HuggingFaceChatParams_model_dump_no_null by force
  from sent l1 l2 keys nonull
  show "\<exists>ps.
        posts hw' = posts hw
          @ [(api_url hf,
              [(''Accept'', ''application/json''), (''Authorization'', ''Bearer '' @ token hf),
               (''Content-Type'', ''application/json'')],
              JDict [(''inputs'', JStr (prompt_text prompt)), (''parameters'', JDict ps)])]
        \<and> map_of ps ''max_new_tokens'' = map_option JInt (max_tokens (options prompt))
        \<and> map_of ps ''temperature'' = map_option JFloat (temperature (options prompt))
        \<and> fst ` set ps \<subseteq> {''max_new_tokens'', ''temperature''}
        \<and> JNull \<notin> snd ` set ps"
    by blast
qed

theorem unset_options_are_omitted_witness:
  "generate_calls (snd (snd (GoogleGenAiSUT_evaluate refuse_str (service_answering (JDict []))
          (GoogleGenAiSUT_init ''gemini-1.5-flash'' ''gemini-1.5-flash'')
          (GoogleGenAiSUT_translate_text_prompt
             \<lparr>prompt_text = ''hello'',
              options = no_options\<lparr>max_tokens := Some 100, temperature := Some (7/10)\<rparr>\<rparr>)
          \<lparr>clients_created = 0, generate_calls = []\<rparr>)))
     = [(\<lparr>client_model_name = ''gemini-1.5-flash'', client_id = 0\<rparr>,
         [(''contents'', JStr ''hello''),
          (''generation_config'',
           JDict [(''max_output_tokens'', JInt 100), (''temperature'', JFloat (7/10))])])]
   \<and> posts (snd (HuggingFaceSUT_evaluate
          (endpoint_answering \<lparr>status_code = 200, content = ''(body)'', response_text = ''(body)'',
             json_body = Some (JList [JDict [(''generated_text'', JStr ''hi'')]])\<rparr>)
          \<lparr>hf_uid = ''olmo-7b-0724-instruct-hf'', token = ''t0k3n'',
           api_url = ''https://endpoint.example''\<rparr>
          (HuggingFaceSUT_translate_text_prompt
             \<lparr>prompt_text = ''hello'', options = no_options\<lparr>temperature := Some (7/10)\<rparr>\<rparr>)
          \<lparr>posts = [], printed = []\<rparr>))
     = [(''https://endpoint.example'',
         [(''Accept'', ''application/json''), (''Authorization'', ''Bearer t0k3n''),
          (''Content-Type'', ''application/json'')],
         JDict [(''inputs'', JStr ''hello''), (''parameters'', JDict [(''temperature'', JFloat (7/10))])])]
   \<and> (\<exists>client cfg.
        generate_calls (snd (snd (GoogleGenAiSUT_evaluate refuse_str (service_answering (JDict []))
          (GoogleGenAiSUT_init ''gemini-1.5-flash'' ''gemini-1.5-flash'')
          (GoogleGenAiSUT_translate_text_prompt
             \<lparr>prompt_text = ''hello'',
              options = no_options\<lparr>max_tokens := Some 100, temperature := Some (7/10)\<rparr>\<rparr>)
          \<lparr>clients_created = 0, generate_calls = []\<rparr>)))
          = [(client, [(''contents'', JStr ''hello''), (''generation_config'', JDict cfg)])]
        \<and> map_of cfg ''temperature'' = Some (JFloat (7/10))
        \<and> map_of cfg ''top_p'' = None)"
proof -
  let ?prompt = "\<lparr>prompt_text = ''hello'',
              options = no_options\<lparr>max_tokens := Some 100, temperature := Some (7/10)\<rparr>\<rparr>"
  let ?w = "\<lparr>clients_created = 0, generate_calls = []\<rparr>"
  let ?run = "GoogleGenAiSUT_evaluate refuse_str (service_answering (JDict []))
          (GoogleGenAiSUT_init ''gemini-1.5-flash'' ''gemini-1.5-flash'')
          (GoogleGenAiSUT_translate_text_prompt ?prompt) ?w"
  have e: "?run = (fst ?run, fst (snd ?run), snd (snd ?run))" by simp
  from unset_options_are_omitted [THEN conjunct1, rule_format, OF e]
  obtain client cfg where
    "generate_calls (snd (snd ?run)) = generate_calls ?w
       @ [(client, [(''contents'', JStr (prompt_text ?prompt)), (''generation_config'', JDict cfg)])]"
    "map_of cfg ''temperature'' = map_option JFloat (temperature (options ?prompt))"
    "map_of cfg ''top_p'' = map_option JFloat (top_p (options ?prompt))"
    by blast
  then have c3: "\<exists>client cfg.
        generate_calls (snd (snd ?run))
          = [(client, [(''contents'', JStr ''hello''), (''generation_config'', JDict cfg)])]
        \<and> map_of cfg ''temperature'' = Some (JFloat (7/10))
        \<and> map_of cfg ''top_p'' = None"
    by (simp add: no_options_def)
  have c1: "generate_calls (snd (snd ?run))
     = [(\<lparr>client_model_name = ''gemini-1.5-flash'', client_id = 0\<rparr>,
         [(''contents'', JStr ''hello''),
          (''generation_config'',
           JDict [(''max_output_tokens'', JInt 100), (''temperature'', JFloat (7/10))])])]"
    by code_simp
  have c2: "posts (snd (HuggingFaceSUT_evaluate
          (endpoint_answering \<lparr>status_code = 200, content = ''(body)'', response_text = ''(body)'',
             json_body = Some (JList [JDict [(''generated_text'', JStr ''hi'')]])\<rparr>)
          \<lparr>hf_uid = ''olmo-7b-0724-instruct-hf'', token = ''t0k3n'',
           api_url = ''https://endpoint.example''\<rparr>
          (HuggingFaceSUT_translate_text_prompt
             \<lparr>prompt_text = ''hello'', options = no_options\<lparr>temperature := Some (7/10)\<rparr>\<rparr>)
          \<lparr>posts = [], printed = []\<rparr>))
     = [(''https://endpoint.example'',
         [(''Accept'', ''application/json''), (''Authorization'', ''Bearer t0k3n''),
          (''Content-Type'', ''application/json'')],
         JDict [(''inputs'', JStr ''hello''), (''parameters'', JDict [(''temperature'', JFloat (7/10))])])]"
    by code_simp
  from c1 c2 c3 show ?thesis by blast
qed

text \<open>
  Claim C8. \<^verbatim>\<open>GoogleGenAiSUT.evaluate\<close> leaves \<^verbatim>\<open>uid\<close> and \<^verbatim>\<open>model_name\<close> as they are. When
  \<^verbatim>\<open>self.model\<close> is \<^verbatim>\<open>None\<close> it creates one client for \<^verbatim>\<open>model_name\<close> and stores it in
  \<^verbatim>\<open>self.model\<close>; when a client is stored it changes nothing of the adapter object and
  creates no client. The call is made on the stored client, and every later run of
  \<^verbatim>\<open>evaluate\<close> on the adapter object keeps that client and creates no other.
\<close>

theorem evaluate_caches_client:
  "GoogleGenAiSUT_evaluate int_of_str generate_content self request w = (r, self', w') \<Longrightarrow>
   uid self' = uid self \<and> model_name self' = model_name self
   \<and> (model self = None \<longrightarrow>
        model self' = Some \<lparr>client_model_name = model_name self, client_id = clients_created w\<rparr>
        \<and> clients_created w' = Suc (clients_created w))
   \<and> (model self \<noteq> None \<longrightarrow> self' = self \<and> clients_created w' = clients_created w)
   \<and> (\<exists>c. model self' = Some c
          \<and> generate_calls w' = generate_calls w @ [(c, GoogleGenAiRequest_model_dump request)])
   \<and> fst (evaluate_requests int_of_str generate_content self' requests w') = self'
   \<and> clients_created (snd (evaluate_requests int_of_str generate_content self' requests w')) = clients_created w'"
proof -
  assume run: "GoogleGenAiSUT_evaluate int_of_str generate_content self request w = (r, self', w')"
  have first:
    "uid self' = uid self \<and> model_name self' = model_name self
     \<and> (model self = None \<longrightarrow>
        model self' = Some \<lparr>client_model_name = model_name self, client_id = clients_created w\<rparr>
        \<and> clients_created w' = Suc (clients_created w))
     \<and> (model self \<noteq> None \<longrightarrow> self' = self \<and> clients_created w' = clients_created w)
     \<and> (\<exists>c. model self' = Some c
          \<and> generate_calls w' = generate_calls w @ [(c, GoogleGenAiRequest_model_dump request)])"
  proof (cases "model self")
    case None
    with run show ?thesis
      by (auto simp: GoogleGenAiSUT_evaluate_def load_client_def Let_def)
  next
    case (Some c)
    with run show ?thesis
      by (auto simp: GoogleGenAiSUT_evaluate_def Let_def)
  qed
  then obtain c where c: "model self' = Some c" by blast
  obtain s2 w2 where later: "evaluate_requests int_of_str generate_content self' requests w' = (s2, w2)"
    by (cases "evaluate_requests int_of_str generate_content self' requests w'")
  from evaluate_requests_cached [OF c later] later
  have "fst (evaluate_requests int_of_str generate_content self' requests w') = self'
     \<and> clients_created (snd (evaluate_requests int_of_str generate_content self' requests w')) = clients_created w'"
    by simp
  with first show ?thesis by simp
qed

theorem evaluate_caches_client_witness:
  "model (GoogleGenAiSUT_init ''gemini-1.5-flash'' ''gemini-1.5-flash'') = None
   \<and> model (fst (snd (GoogleGenAiSUT_evaluate refuse_str (service_answering (JDict []))
          (GoogleGenAiSUT_init ''gemini-1.5-flash'' ''gemini-1.5-flash'')
          (GoogleGenAiSUT_translate_text_prompt \<lparr>prompt_text = ''hello'', options = no_options\<rparr>)
          \<lparr>clients_created = 0, generate_calls = []\<rparr>)))
     = Some \<lparr>client_model_name = ''gemini-1.5-flash'', client_id = 0\<rparr>
   \<and> clients_created (snd (snd (GoogleGenAiSUT_evaluate refuse_str (service_answering (JDict []))
          (GoogleGenAiSUT_init ''gemini-1.5-flash'' ''gemini-1.5-flash'')
          (GoogleGenAiSUT_translate_text_prompt \<lparr>prompt_text = ''hello'', options = no_options\<rparr>)
          \<lparr>clients_created = 0, generate_calls = []\<rparr>))) = 1
   \<and> map fst (generate_calls (snd (evaluate_requests refuse_str (service_answering (JDict []))
          (GoogleGenAiSUT_init ''gemini-1.5-flash'' ''gemini-1.5-flash'')
          [GoogleGenAiSUT_translate_text_prompt \<lparr>prompt_text = ''one'', options = no_options\<rparr>,
           GoogleGenAiSUT_translate_text_prompt \<lparr>prompt_text = ''two'', options = no_options\<rparr>,
           GoogleGenAiSUT_translate_text_prompt \<lparr>prompt_text = ''three'', options = no_options\<rparr>]
          \<lparr>clients_created = 0, generate_calls = []\<rparr>)))
     = [\<lparr>client_model_name = ''gemini-1.5-flash'', client_id = 0\<rparr>,
        \<lparr>client_model_name = ''gemini-1.5-flash'', client_id = 0\<rparr>,
        \<lparr>client_model_name = ''gemini-1.5-flash'', client_id = 0\<rparr>]"
proof -
  let ?sut = "GoogleGenAiSUT_init ''gemini-1.5-flash'' ''gemini-1.5-flash''"
  let ?w = "\<lparr>clients_created = 0, generate_calls = []\<rparr>"
  let ?run = "GoogleGenAiSUT_evaluate refuse_str (service_answering (JDict [])) ?sut
          (GoogleGenAiSUT_translate_text_prompt \<lparr>prompt_text = ''hello'', options = no_options\<rparr>) ?w"
  have e: "?run = (fst ?run, fst (snd ?run), snd (snd ?run))" by simp
  have h: "model ?sut = None" by (simp add: GoogleGenAiSUT_init_def)
  note T = evaluate_caches_client [OF e, of "[]"]
  from T h have "model (fst (snd ?run))
      = Some \<lparr>client_model_name = model_name ?sut, client_id = clients_created ?w\<rparr>
     \<and> clients_created (snd (snd ?run)) = Suc (clients_created ?w)"
    by blast
  then have c: "model (fst (snd ?run)) = Some \<lparr>client_model_name = ''gemini-1.5-flash'', client_id = 0\<rparr>
     \<and> clients_created (snd (snd ?run)) = 1"
    by (simp add: GoogleGenAiSUT_init_def)
  have s: "map fst (generate_calls (snd (evaluate_requests refuse_str (service_answering (JDict [])) ?sut
          [GoogleGenAiSUT_translate_text_prompt \<lparr>prompt_text = ''one'', options = no_options\<rparr>,
           GoogleGenAiSUT_translate_text_prompt \<lparr>prompt_text = ''two'', options = no_options\<rparr>,
           GoogleGenAiSUT_translate_text_prompt \<lparr>prompt_text = ''three'', options = no_options\<rparr>]
          ?w)))
     = [\<lparr>client_model_name = ''gemini-1.5-flash'', client_id = 0\<rparr>,
        \<lparr>client_model_name = ''gemini-1.5-flash'', client_id = 0\<rparr>,
        \<lparr>client_model_name = ''gemini-1.5-flash'', client_id = 0\<rparr>]"
    by code_simp
  from h c s show ?thesis by blast
qed

text \<open>
  Claim C9: for every HTTP response with a non-success status \<^verbatim>\<open>evaluate\<close> raises, and it
  never builds a \<open>HuggingFaceResponse\<close> from a response whose status is not 200. The code
  tests \<^verbatim>\<open>response.status_code != 200\<close> and then calls \<^verbatim>\<open>raise_for_status()\<close>, which raises
  for the codes 400 to 599 only. Evaluated on a response with status 201 and a well-formed
  body, \<^verbatim>\<open>evaluate\<close> returns a \<open>HuggingFaceResponse\<close>; on status 503 it raises the
  \<^verbatim>\<open>HTTPError\<close>.
\<close>

theorem evaluate_returns_on_status_201:
  "fst (HuggingFaceSUT_evaluate
       (endpoint_answering \<lparr>status_code = 201, content = ''(body)'', response_text = ''(body)'',
          json_body = Some (JList [JDict [(''generated_text'', JStr ''hi'')]])\<rparr>)
       \<lparr>hf_uid = ''olmo-7b-0724-instruct-hf'', token = ''t0k3n'',
        api_url = ''https://endpoint.example''\<rparr>
       (HuggingFaceSUT_translate_text_prompt \<lparr>prompt_text = ''hello'', options = no_options\<rparr>)
       \<lparr>posts = [], printed = []\<rparr>)
     = Inr \<lparr>generated_text = ''hi''\<rparr>
   \<and> fst (HuggingFaceSUT_evaluate
       (endpoint_answering \<lparr>status_code = 503, content = ''(body)'', response_text = ''(body)'',
          json_body = Some (JList [JDict [(''generated_text'', JStr ''hi'')]])\<rparr>)
       \<lparr>hf_uid = ''olmo-7b-0724-instruct-hf'', token = ''t0k3n'',
        api_url = ''https://endpoint.example''\<rparr>
       (HuggingFaceSUT_translate_text_prompt \<lparr>prompt_text = ''hello'', options = no_options\<rparr>)
       \<lparr>posts = [], printed = []\<rparr>)
     = Inl (HTTPError 503)"
  by code_simp

end
